theory Spec2Isabelle
  imports Main "HOL-Library.Sublist"
begin

section \<open>Company formation server: shallow embedding of \<open>app.py\<close>\<close>

subsection \<open>Python strings\<close>

text \<open>
  A Python \<open>str\<close> is a sequence of Unicode code points, so it is modelled as a list of
  naturals. Literals of the source are written \<open>lit ''...''\<close>; every literal of
  \<open>app.py\<close> is ASCII.
\<close>

type_synonym ustr = "nat list"

definition lit :: "string \<Rightarrow> ustr" where
  "lit s = map of_char s"

text \<open>
  \<open>str.upper()\<close>: on ASCII it maps \<open>a\<close>..\<open>z\<close> to \<open>A\<close>..\<open>Z\<close> and leaves everything else
  alone. Beyond ASCII it follows the Unicode case tables, where one code point may become
  several (\<open>U+00DF\<close> becomes \<open>SS\<close>). Those tables belong to the Python runtime and not to
  the repository, so they are the parameter \<open>uc\<close>: the full upper-case mapping of a
  non-ASCII code point.
\<close>

definition ascii_upper :: "nat \<Rightarrow> nat" where
  "ascii_upper c = (if 97 \<le> c \<and> c \<le> 122 then c - 32 else c)"

definition upper :: "(nat \<Rightarrow> ustr) \<Rightarrow> ustr \<Rightarrow> ustr" where
  "upper uc v = concat (map (\<lambda>c. if c < 128 then [ascii_upper c] else uc c) v)"

subsection \<open>The regular expression of \<open>validate_company_name\<close>\<close>

text \<open>
  \<open>\s\<close> in a \<open>str\<close> pattern is Unicode white space: the code points for which
  \<open>str.isspace()\<close> holds.
\<close>

definition is_space :: "nat \<Rightarrow> bool" where
  "is_space c \<longleftrightarrow>
     (9 \<le> c \<and> c \<le> 13) \<or> (28 \<le> c \<and> c \<le> 32) \<or> c = 133 \<or> c = 160 \<or> c = 5760
     \<or> (8192 \<le> c \<and> c \<le> 8202) \<or> c = 8232 \<or> c = 8233 \<or> c = 8239 \<or> c = 8287
     \<or> c = 12288"

text \<open>The character class \<open>[a-zA-Z0-9\s,\.\'&]\<close>.\<close>

definition name_char :: "nat \<Rightarrow> bool" where
  "name_char c \<longleftrightarrow>
     (97 \<le> c \<and> c \<le> 122) \<or> (65 \<le> c \<and> c \<le> 90) \<or> (48 \<le> c \<and> c \<le> 57) \<or> is_space c
     \<or> c = 44 \<or> c = 46 \<or> c = 39 \<or> c = 38"

text \<open>
  \<open>$\<close> without \<open>re.MULTILINE\<close> matches at the end of the string and just before a
  newline that is the last character.
\<close>

definition at_dollar :: "ustr \<Rightarrow> bool" where
  "at_dollar rest \<longleftrightarrow> rest = [] \<or> rest = [10]"

text \<open>
  \<open>re.match(r'^[a-zA-Z0-9\s,\.\'&]+$', v)\<close>: the greedy \<open>+\<close> takes the longest run of class
  characters at the start of \<open>v\<close>, then gives characters back one at a time, down to one,
  until \<open>$\<close> matches. \<open>backtrack n v\<close> tries the run lengths \<open>n\<close>, \<open>n - 1\<close>, ..., \<open>1\<close>.
\<close>

fun backtrack :: "nat \<Rightarrow> ustr \<Rightarrow> bool" where
  "backtrack 0 v = False"
| "backtrack (Suc n) v = (at_dollar (drop (Suc n) v) \<or> backtrack n v)"

definition re_match_name :: "ustr \<Rightarrow> bool" where
  "re_match_name v = backtrack (length (takeWhile name_char v)) v"

subsection \<open>The model class \<open>CompanyFormation\<close> and its validators\<close>

datatype value_error = ValueError ustr

definition validate_company_name :: "ustr \<Rightarrow> value_error + ustr" where
  "validate_company_name v =
     (if \<not> re_match_name v
      then Inl (ValueError (lit ''Company name can only contain alphanumeric characters, spaces, commas, periods, apostrophes, and ampersands''))
      else Inr v)"

definition states :: "ustr list" where
  "states = map lit
     [''AL'', ''AK'', ''AZ'', ''AR'', ''CA'', ''CO'', ''CT'', ''DE'', ''FL'', ''GA'',
      ''HI'', ''ID'', ''IL'', ''IN'', ''IA'', ''KS'', ''KY'', ''LA'', ''ME'', ''MD'',
      ''MA'', ''MI'', ''MN'', ''MS'', ''MO'', ''MT'', ''NE'', ''NV'', ''NH'', ''NJ'',
      ''NM'', ''NY'', ''NC'', ''ND'', ''OH'', ''OK'', ''OR'', ''PA'', ''RI'', ''SC'',
      ''SD'', ''TN'', ''TX'', ''UT'', ''VT'', ''VA'', ''WA'', ''WV'', ''WI'', ''WY'',
      ''DC'', ''PR'', ''GU'', ''VI'', ''AS'', ''MP'']"

definition validate_state :: "(nat \<Rightarrow> ustr) \<Rightarrow> ustr \<Rightarrow> value_error + ustr" where
  "validate_state uc v =
     (if upper uc v \<notin> set states
      then Inl (ValueError (lit ''Invalid US state or territory''))
      else Inr (upper uc v))"

text \<open>
  The validated object. \<open>company_type\<close> is a string in the source (its annotation
  \<open>Literal["corporation", "LLC"]\<close> is a check made at construction), and it stays a
  string here, so that the endpoint's comparisons on it are the source's.
\<close>

record CompanyFormation =
  company_name :: ustr
  state_of_formation :: ustr
  company_type :: ustr
  incorporator_name :: ustr

text \<open>
  The raw payload is the dictionary \<open>data\<close> of \<open>form_company\<close>: each of the four keys
  holds a string, or nothing (the key is absent from the JSON body, or
  \<open>request.form.get\<close> returned \<open>None\<close>). JSON values of other types are outside the model.
\<close>

record payload =
  raw_company_name :: "ustr option"
  raw_state_of_formation :: "ustr option"
  raw_company_type :: "ustr option"
  raw_incorporator_name :: "ustr option"

datatype field = Company_name | State_of_formation | Company_type | Incorporator_name

datatype field_error =
    Field_required
  | Validator_failed value_error
  | Unexpected_value ustr

text \<open>
  The exceptions that reach \<open>except Exception\<close> in \<open>form_company\<close>: the validation error of
  the model class, and what the library calls of the archive step raise.
  \<open>UnicodeEncodeError\<close> is what \<open>str.encode("utf-8")\<close> raises on a lone surrogate,
  \<open>Header_ValueError\<close> the \<open>ValueError\<close> of a header value that holds a line break, and
  \<open>Library_error\<close> stands for any other exception of a library, by a number.
\<close>

datatype exception =
    ValidationError "(field \<times> field_error) list"
  | UnicodeEncodeError
  | Header_ValueError
  | Library_error nat

text \<open>One field: it must be present, then its check runs.\<close>

definition check_field :: "(ustr \<Rightarrow> field_error + ustr) \<Rightarrow> ustr option \<Rightarrow> field_error + ustr" where
  "check_field chk raw = (case raw of None \<Rightarrow> Inl Field_required | Some v \<Rightarrow> chk v)"

definition run_validator :: "(ustr \<Rightarrow> value_error + ustr) \<Rightarrow> ustr \<Rightarrow> field_error + ustr" where
  "run_validator f v = (case f v of Inl e \<Rightarrow> Inl (Validator_failed e) | Inr w \<Rightarrow> Inr w)"

definition check_literal :: "ustr \<Rightarrow> field_error + ustr" where
  "check_literal v =
     (if v = lit ''corporation'' \<or> v = lit ''LLC'' then Inr v else Inl (Unexpected_value v))"

definition errors_of :: "(field \<times> (field_error + ustr)) list \<Rightarrow> (field \<times> field_error) list" where
  "errors_of rs = concat (map (\<lambda>(f, r). case r of Inl e \<Rightarrow> [(f, e)] | Inr _ \<Rightarrow> []) rs)"

text \<open>
  \<open>CompanyFormation(**data)\<close>: the fields are checked in the order of their declaration and
  the failures of all of them are gathered into one \<open>ValidationError\<close>.
\<close>

definition new_CompanyFormation :: "(nat \<Rightarrow> ustr) \<Rightarrow> payload \<Rightarrow> exception + CompanyFormation" where
  "new_CompanyFormation uc data =
     (let r1 = check_field (run_validator validate_company_name) (raw_company_name data);
          r2 = check_field (run_validator (validate_state uc)) (raw_state_of_formation data);
          r3 = check_field check_literal (raw_company_type data);
          r4 = check_field Inr (raw_incorporator_name data)
      in case (r1, r2, r3, r4) of
           (Inr n, Inr s, Inr t, Inr i) \<Rightarrow>
             Inr \<lparr>company_name = n, state_of_formation = s, company_type = t,
                  incorporator_name = i\<rparr>
         | _ \<Rightarrow>
             Inl (ValidationError (errors_of
               [(Company_name, r1), (State_of_formation, r2), (Company_type, r3),
                (Incorporator_name, r4)])))"

subsection \<open>The clock\<close>

text \<open>
  The templates read \<open>datetime.now()\<close> and format it with \<open>strftime\<close>. A reading of the
  clock is a calendar date; the month names are those of the C locale, which a Python
  process has unless it sets another.
\<close>

datatype month =
  January | February | March | April | May | June | July | August | September | October
  | November | December

record datetime =
  year :: nat
  month :: month
  day :: nat

fun dec :: "nat \<Rightarrow> ustr" where
  "dec n = (if n < 10 then [48 + n] else dec (n div 10) @ [48 + n mod 10])"

declare dec.simps [simp del]

fun month_name :: "month \<Rightarrow> ustr" where
  "month_name January = lit ''January''"
| "month_name February = lit ''February''"
| "month_name March = lit ''March''"
| "month_name April = lit ''April''"
| "month_name May = lit ''May''"
| "month_name June = lit ''June''"
| "month_name July = lit ''July''"
| "month_name August = lit ''August''"
| "month_name September = lit ''September''"
| "month_name October = lit ''October''"
| "month_name November = lit ''November''"
| "month_name December = lit ''December''"

text \<open>\<open>strftime('%d')\<close>: the day of the month, two digits.\<close>

definition strftime_d :: "datetime \<Rightarrow> ustr" where
  "strftime_d t = (if day t < 10 then lit ''0'' @ dec (day t) else dec (day t))"

text \<open>\<open>strftime('%B, %Y')\<close>.\<close>

definition strftime_B_Y :: "datetime \<Rightarrow> ustr" where
  "strftime_B_Y t = month_name (month t) @ lit '', '' @ dec (year t)"

text \<open>\<open>strftime("%d %B, %Y")\<close>.\<close>

definition strftime_d_B_Y :: "datetime \<Rightarrow> ustr" where
  "strftime_d_B_Y t = strftime_d t @ lit '' '' @ month_name (month t) @ lit '', '' @ dec (year t)"

subsection \<open>The PDF canvas\<close>

text \<open>
  A PDF is what was drawn on its canvas: the page size and the drawing calls in order.
  \<open>c.save()\<close> and \<open>buffer.seek(0)\<close> close the document and rewind the buffer; they
  change nothing that was drawn.
\<close>

datatype pagesize = letter

datatype canvas_op =
    setFont ustr nat
  | drawCentredString nat nat ustr
  | drawString nat nat ustr

record canvas =
  page :: pagesize
  ops :: "canvas_op list"

subsection \<open>The four templates\<close>

text \<open>
  Each template takes, before the request, one clock reading for each \<open>datetime.now()\<close>
  it evaluates, in the order of evaluation. The Delaware templates read the clock three
  times (twice for the PDF, once for the text), the California templates twice.
\<close>

definition generate_delaware_articles ::
  "datetime \<Rightarrow> datetime \<Rightarrow> datetime \<Rightarrow> CompanyFormation \<Rightarrow> canvas \<times> ustr" where
  "generate_delaware_articles now1 now2 now3 company_data =
     (let buffer = \<lparr>page = letter, ops =
            [setFont (lit ''Helvetica-Bold'') 16,
             drawCentredString 300 750 (lit ''CERTIFICATE OF INCORPORATION''),
             setFont (lit ''Helvetica'') 12,
             drawString 50 700 (lit ''FIRST: The name of this corporation is:''),
             drawString 70 680 (company_name company_data),
             drawString 50 630 (lit ''SECOND: Its registered office in the State of Delaware is located at:''),
             drawString 70 610 (lit ''251 Little Falls Drive, Wilmington, New Castle County, Delaware 19808''),
             drawString 50 560 (lit ''THIRD: The purpose of the corporation is to engage in any lawful act or activity for''),
             drawString 50 540 (lit ''which corporations may be organized under the General Corporation Law of Delaware.''),
             drawString 50 490 (lit ''FOURTH: The total number of shares of stock which this corporation is authorized''),
             drawString 50 470 (lit ''to issue is 1,000 shares of Common Stock with $0.01 par value per share.''),
             drawString 50 200 (lit ''IN WITNESS WHEREOF, the undersigned, being the incorporator hereinbefore named,''),
             drawString 50 180 (lit ''has executed this Certificate of Incorporation this '' @ strftime_d now1 @ lit '' day of''),
             drawString 50 160 (strftime_B_Y now2 @ lit ''.''),
             drawString 50 100 (lit ''Incorporator:''),
             drawString 70 80 (incorporator_name company_data)]\<rparr>;
          today = strftime_d_B_Y now3;
          text_content =
            lit ''CERTIFICATE OF INCORPORATION\<newline>''
            @ lit ''\<newline>''
            @ lit ''FIRST: The name of this corporation is:\<newline>''
            @ company_name company_data @ lit ''\<newline>''
            @ lit ''\<newline>''
            @ lit ''SECOND: Its registered office in the State of Delaware is located at:\<newline>''
            @ lit ''251 Little Falls Drive, Wilmington, New Castle County, Delaware 19808\<newline>''
            @ lit ''\<newline>''
            @ lit ''THIRD: The purpose of the corporation is to engage in any lawful act or activity for\<newline>''
            @ lit ''which corporations may be organized under the General Corporation Law of Delaware.\<newline>''
            @ lit ''\<newline>''
            @ lit ''FOURTH: The total number of shares of stock which this corporation is authorized\<newline>''
            @ lit ''to issue is 1,000 shares of Common Stock with $0.01 par value per share.\<newline>''
            @ lit ''\<newline>''
            @ lit ''IN WITNESS WHEREOF, the undersigned, being the incorporator hereinbefore named,\<newline>''
            @ lit ''has executed this Certificate of Incorporation this '' @ today @ lit ''.\<newline>''
            @ lit ''\<newline>''
            @ lit ''Incorporator:\<newline>''
            @ incorporator_name company_data
      in (buffer, text_content))"

definition generate_delaware_llc_certificate ::
  "datetime \<Rightarrow> datetime \<Rightarrow> datetime \<Rightarrow> CompanyFormation \<Rightarrow> canvas \<times> ustr" where
  "generate_delaware_llc_certificate now1 now2 now3 company_data =
     (let buffer = \<lparr>page = letter, ops =
            [setFont (lit ''Helvetica-Bold'') 16,
             drawCentredString 300 750 (lit ''CERTIFICATE OF FORMATION''),
             setFont (lit ''Helvetica'') 12,
             drawString 50 700 (lit ''FIRST: The name of the limited liability company is:''),
             drawString 70 680 (company_name company_data),
             drawString 50 630 (lit ''SECOND: The address of its registered office in the State of Delaware is:''),
             drawString 70 610 (lit ''251 Little Falls Drive, Wilmington, New Castle County, Delaware 19808''),
             drawString 50 560 (lit ''THIRD: The name and address of its registered agent in the State of Delaware is:''),
             drawString 70 540 (lit ''Corporation Service Company''),
             drawString 70 520 (lit ''251 Little Falls Drive''),
             drawString 70 500 (lit ''Wilmington, DE 19808''),
             drawString 50 450 (lit ''FOURTH: The limited liability company shall be managed by its members.''),
             drawString 50 200 (lit ''IN WITNESS WHEREOF, the undersigned has executed this Certificate of Formation this '' @ strftime_d now1 @ lit '' day of''),
             drawString 50 180 (strftime_B_Y now2 @ lit ''.''),
             drawString 50 100 (lit ''Authorized Person:''),
             drawString 70 80 (incorporator_name company_data)]\<rparr>;
          today = strftime_d_B_Y now3;
          text_content =
            lit ''CERTIFICATE OF FORMATION\<newline>''
            @ lit ''\<newline>''
            @ lit ''FIRST: The name of the limited liability company is:\<newline>''
            @ company_name company_data @ lit ''\<newline>''
            @ lit ''\<newline>''
            @ lit ''SECOND: The address of its registered office in the State of Delaware is:\<newline>''
            @ lit ''251 Little Falls Drive, Wilmington, New Castle County, Delaware 19808\<newline>''
            @ lit ''\<newline>''
            @ lit ''THIRD: The name and address of its registered agent in the State of Delaware is:\<newline>''
            @ lit ''Corporation Service Company\<newline>''
            @ lit ''251 Little Falls Drive\<newline>''
            @ lit ''Wilmington, DE 19808\<newline>''
            @ lit ''\<newline>''
            @ lit ''FOURTH: The limited liability company shall be managed by its members.\<newline>''
            @ lit ''\<newline>''
            @ lit ''IN WITNESS WHEREOF, the undersigned has executed this Certificate of Formation this '' @ today @ lit ''.\<newline>''
            @ lit ''\<newline>''
            @ lit ''Authorized Person:\<newline>''
            @ incorporator_name company_data
      in (buffer, text_content))"

definition generate_california_articles ::
  "datetime \<Rightarrow> datetime \<Rightarrow> CompanyFormation \<Rightarrow> canvas" where
  "generate_california_articles now1 now2 company_data =
     \<lparr>page = letter, ops =
        [setFont (lit ''Helvetica-Bold'') 16,
         drawCentredString 300 750 (lit ''ARTICLES OF INCORPORATION''),
         setFont (lit ''Helvetica'') 12,
         drawString 50 700 (lit ''ARTICLE I: The name of this corporation is:''),
         drawString 70 680 (company_name company_data),
         drawString 50 630 (lit ''ARTICLE II: The purpose of the corporation is to engage in any lawful act or activity''),
         drawString 50 610 (lit ''for which a corporation may be organized under the General Corporation Law of California.''),
         drawString 50 560 (lit ''ARTICLE III: The name and address in California of the corporation's initial agent for service of process is:''),
         drawString 70 540 (lit ''California Registered Agent, Inc.''),
         drawString 70 520 (lit ''123 Main Street''),
         drawString 70 500 (lit ''Los Angeles, CA 90001''),
         drawString 50 200 (lit ''IN WITNESS WHEREOF, the undersigned, being the incorporator hereinbefore named,''),
         drawString 50 180 (lit ''has executed these Articles of Incorporation this '' @ strftime_d now1 @ lit '' day of''),
         drawString 50 160 (strftime_B_Y now2 @ lit ''.''),
         drawString 50 100 (lit ''Incorporator:''),
         drawString 70 80 (incorporator_name company_data)]\<rparr>"

definition generate_california_llc_certificate ::
  "datetime \<Rightarrow> datetime \<Rightarrow> CompanyFormation \<Rightarrow> canvas" where
  "generate_california_llc_certificate now1 now2 company_data =
     \<lparr>page = letter, ops =
        [setFont (lit ''Helvetica-Bold'') 16,
         drawCentredString 300 750 (lit ''ARTICLES OF ORGANIZATION''),
         setFont (lit ''Helvetica'') 12,
         drawString 50 700 (lit ''ARTICLE I: The name of the limited liability company is:''),
         drawString 70 680 (company_name company_data),
         drawString 50 630 (lit ''ARTICLE II: The purpose of the limited liability company is to engage in any lawful business.''),
         drawString 50 560 (lit ''ARTICLE III: The name and address in California of the LLC's initial agent for service of process is:''),
         drawString 70 540 (lit ''California Registered Agent, Inc.''),
         drawString 70 520 (lit ''123 Main Street''),
         drawString 70 500 (lit ''Los Angeles, CA 90001''),
         drawString 50 200 (lit ''IN WITNESS WHEREOF, the undersigned has executed these Articles of Organization this '' @ strftime_d now1 @ lit '' day of''),
         drawString 50 180 (strftime_B_Y now2 @ lit ''.''),
         drawString 50 100 (lit ''Authorized Person:''),
         drawString 70 80 (incorporator_name company_data)]\<rparr>"

subsection \<open>The endpoint \<open>POST /form-company\<close>\<close>

text \<open>
  An archive is the list of its entries, in the order of the \<open>writestr\<close> calls. A
  response is either the file sent by \<open>send_file\<close> (the archive, its MIME type and its
  download name; status 200) or the pair of \<open>jsonify({"error": ...})\<close> and a status.
  The error text is a literal of the source or \<open>str(e)\<close> of the exception caught.
\<close>

datatype zip_content = Pdf_bytes canvas | Text_bytes ustr

type_synonym zip_archive = "(ustr \<times> zip_content) list"

datatype error_text = Message ustr | Str_of exception

datatype response =
    Send_file zip_archive ustr ustr
  | Json_error error_text nat

text \<open>
  The archive step calls \<open>zipfile\<close> and \<open>send_file\<close> inside the \<open>try\<close>, and these
  calls can raise. Two causes are known from the request alone and are written into the
  model: \<open>writestr\<close> encodes a text entry as UTF-8, which fails on a lone surrogate, and
  \<open>send_file\<close> puts the download name into the \<open>Content-Disposition\<close> header, which
  refuses a carriage return or a line feed. Every other cause lies in the library and its
  environment and not in the repository (a system clock whose year a ZIP entry cannot
  store, a name too long for a ZIP header, ...), so it is the parameter \<open>lib\<close>: for each
  call, the exception that the library raises there, if any.
\<close>

record library =
  writestr_raises :: "zip_archive \<Rightarrow> ustr \<Rightarrow> zip_content \<Rightarrow> exception option"
  close_raises :: "zip_archive \<Rightarrow> exception option"
  send_file_raises :: "zip_archive \<Rightarrow> ustr \<Rightarrow> ustr \<Rightarrow> exception option"

definition has_surrogate :: "ustr \<Rightarrow> bool" where
  "has_surrogate t = list_ex (\<lambda>c. 55296 \<le> c \<and> c \<le> 57343) t"

definition has_line_break :: "ustr \<Rightarrow> bool" where
  "has_line_break t = list_ex (\<lambda>c. c = 10 \<or> c = 13) t"

text \<open>\<open>zf.writestr(arcname, data)\<close> on the archive \<open>zf\<close>: the entry is added, or the call raises.\<close>

definition writestr :: "library \<Rightarrow> zip_archive \<Rightarrow> ustr \<Rightarrow> zip_content \<Rightarrow> exception + zip_archive" where
  "writestr lib zf arcname data =
     (case writestr_raises lib zf arcname data of
        Some e \<Rightarrow> Inl e
      | None \<Rightarrow>
          (case data of
             Text_bytes t \<Rightarrow>
               if has_surrogate t then Inl UnicodeEncodeError else Inr (zf @ [(arcname, data)])
           | Pdf_bytes b \<Rightarrow> Inr (zf @ [(arcname, data)])))"

text \<open>
  Leaving the \<open>with\<close> block closes the archive. When the block is left by an exception,
  \<open>close\<close> still runs, and an exception of its own replaces the one that left the block.
\<close>

definition leave_with :: "library \<Rightarrow> zip_archive \<Rightarrow> exception \<Rightarrow> exception" where
  "leave_with lib zf e = (case close_raises lib zf of Some e' \<Rightarrow> e' | None \<Rightarrow> e)"

text \<open>Lines 277 to 283: the \<open>with zipfile.ZipFile(zip_buffer, 'w') as zf\<close> block.\<close>

definition write_zip :: "library \<Rightarrow> CompanyFormation \<Rightarrow> canvas \<Rightarrow> ustr \<Rightarrow> exception + zip_archive" where
  "write_zip lib company_data pdf_buffer text_content =
     (case writestr lib [] (company_name company_data @ lit ''_certificate.pdf'')
             (Pdf_bytes pdf_buffer) of
        Inl e \<Rightarrow> Inl (leave_with lib [] e)
      | Inr zf1 \<Rightarrow>
          (case writestr lib zf1 (company_name company_data @ lit ''_certificate.txt'')
                  (Text_bytes text_content) of
             Inl e \<Rightarrow> Inl (leave_with lib zf1 e)
           | Inr zf2 \<Rightarrow>
               (case close_raises lib zf2 of Some e \<Rightarrow> Inl e | None \<Rightarrow> Inr zf2)))"

text \<open>\<open>send_file(zip_buffer, mimetype=..., as_attachment=True, download_name=...)\<close>.\<close>

definition send_file :: "library \<Rightarrow> zip_archive \<Rightarrow> ustr \<Rightarrow> ustr \<Rightarrow> exception + response" where
  "send_file lib zip_buffer mimetype download_name =
     (case send_file_raises lib zip_buffer mimetype download_name of
        Some e \<Rightarrow> Inl e
      | None \<Rightarrow>
          if has_line_break download_name then Inl Header_ValueError
          else Inr (Send_file zip_buffer mimetype download_name))"

text \<open>
  Lines 276 to 291 of \<open>app.py\<close>: the archive of the PDF and the text, sent as a download,
  or the exception that one of the calls raised.
\<close>

definition send_zip :: "library \<Rightarrow> CompanyFormation \<Rightarrow> canvas \<times> ustr \<Rightarrow> exception + response" where
  "send_zip lib company_data r =
     (case r of (pdf_buffer, text_content) \<Rightarrow>
        (case write_zip lib company_data pdf_buffer text_content of
           Inl e \<Rightarrow> Inl e
         | Inr zip_buffer \<Rightarrow>
             send_file lib zip_buffer (lit ''application/zip'')
               (company_name company_data @ lit ''_formation_documents.zip'')))"

text \<open>
  The body of the \<open>try\<close> after the construction of \<open>company_data\<close>: the response that it
  returns, or the exception that it raises. \<open>now\<close> gives the successive readings of the
  clock during the request. Both branches of the outer \<open>if\<close> return, so the
  \<open>send_file(pdf_buffer, ...)\<close> that follows it in the source is never reached and has no
  counterpart here.
\<close>

definition dispatch :: "library \<Rightarrow> (nat \<Rightarrow> datetime) \<Rightarrow> CompanyFormation \<Rightarrow> exception + response" where
  "dispatch lib now company_data =
     (if state_of_formation company_data = lit ''DE'' then
        (if company_type company_data = lit ''corporation'' then
           send_zip lib company_data
             (generate_delaware_articles (now 0) (now 1) (now 2) company_data)
         else if company_type company_data = lit ''LLC'' then
           send_zip lib company_data
             (generate_delaware_llc_certificate (now 0) (now 1) (now 2) company_data)
         else Inr (Json_error (Message (lit ''Unsupported company type'')) 400))
      else
        Inr (Json_error
          (Message (lit ''Only Delaware and California entities are supported at this time''))
          400))"

text \<open>
  \<open>form_company\<close>: an exception, of the construction or of the body, is caught by
  \<open>except Exception as e\<close> and answered with \<open>str(e)\<close> and status 400.
\<close>

definition form_company ::
  "library \<Rightarrow> (nat \<Rightarrow> ustr) \<Rightarrow> (nat \<Rightarrow> datetime) \<Rightarrow> payload \<Rightarrow> response" where
  "form_company lib uc now data =
     (case new_CompanyFormation uc data of
        Inl e \<Rightarrow> Json_error (Str_of e) 400
      | Inr company_data \<Rightarrow>
          (case dispatch lib now company_data of
             Inl e \<Rightarrow> Json_error (Str_of e) 400
           | Inr rv \<Rightarrow> rv))"

text \<open>
  The library raises in none of the calls that the archive step makes for this company
  name and these two bodies.
\<close>

definition library_quiet :: "library \<Rightarrow> ustr \<Rightarrow> canvas \<Rightarrow> ustr \<Rightarrow> bool" where
  "library_quiet lib name pdf txt \<longleftrightarrow>
     writestr_raises lib [] (name @ lit ''_certificate.pdf'') (Pdf_bytes pdf) = None
     \<and> writestr_raises lib [(name @ lit ''_certificate.pdf'', Pdf_bytes pdf)]
           (name @ lit ''_certificate.txt'') (Text_bytes txt) = None
     \<and> close_raises lib
           [(name @ lit ''_certificate.pdf'', Pdf_bytes pdf),
            (name @ lit ''_certificate.txt'', Text_bytes txt)] = None
     \<and> send_file_raises lib
           [(name @ lit ''_certificate.pdf'', Pdf_bytes pdf),
            (name @ lit ''_certificate.txt'', Text_bytes txt)]
           (lit ''application/zip'') (name @ lit ''_formation_documents.zip'') = None"

text \<open>A library that raises nowhere beyond what the model writes out.\<close>

definition quiet_library :: library where
  "quiet_library =
     \<lparr>writestr_raises = (\<lambda>zf arcname data. None), close_raises = (\<lambda>zf. None),
      send_file_raises = (\<lambda>zf mimetype download_name. None)\<rparr>"

text \<open>A library whose first \<open>writestr\<close> fails, as on a system clock set before 1980.\<close>

definition failing_library :: library where
  "failing_library =
     \<lparr>writestr_raises = (\<lambda>zf arcname data. Some (Library_error 0)), close_raises = (\<lambda>zf. None),
      send_file_raises = (\<lambda>zf mimetype download_name. None)\<rparr>"

subsection \<open>What is read off a document\<close>

text \<open>
  The title of a PDF is what \<open>drawCentredString\<close> drew; the title of a text is its first
  line.
\<close>

fun centred :: "canvas_op \<Rightarrow> ustr list" where
  "centred (drawCentredString x y s) = [s]"
| "centred _ = []"

definition pdf_title :: "canvas \<Rightarrow> ustr list" where
  "pdf_title c = concat (map centred (ops c))"


subsection \<open>The endpoint \<open>GET /form-company-schema\<close> and the object as a payload\<close>

text \<open>A payload whose four fields are the given literals.\<close>

definition request :: "string \<Rightarrow> string \<Rightarrow> string \<Rightarrow> string \<Rightarrow> payload" where
  "request n s t i =
     \<lparr>raw_company_name = Some (lit n), raw_state_of_formation = Some (lit s),
      raw_company_type = Some (lit t), raw_incorporator_name = Some (lit i)\<rparr>"

text \<open>The example payloads that \<open>form_company_schema\<close> returns.\<close>

definition form_company_schema :: "payload list" where
  "form_company_schema =
     [request ''Acme Corp, Inc.'' ''DE'' ''corporation'' ''John Smith'',
      request ''Smith & Sons, LLC'' ''DE'' ''LLC'' ''Jane Doe'',
      request ''Tech Innovators Co.'' ''CA'' ''corporation'' ''Michael Johnson'',
      request ''California Dreaming, LLC'' ''CA'' ''LLC'' ''Emily Chen'']"

text \<open>
  The normalized output of validation, given back as a payload: the fields of the
  object, as \<open>company_data.dict()\<close> lists them.
\<close>

definition dict :: "CompanyFormation \<Rightarrow> payload" where
  "dict r =
     \<lparr>raw_company_name = Some (company_name r),
      raw_state_of_formation = Some (state_of_formation r),
      raw_company_type = Some (company_type r),
      raw_incorporator_name = Some (incorporator_name r)\<rparr>"

section \<open>Properties\<close>

subsection \<open>Literals\<close>

lemma lit_eq_iff [simp]: "lit a = lit b \<longleftrightarrow> a = b"
  by (simp add: lit_def inj_map_eq_map inj_on_def)


subsection \<open>Company names\<close>

text \<open>
  The backtracking search succeeds exactly when some run length between one and \<open>n\<close>
  leaves \<open>$\<close> matching.
\<close>

lemma backtrack_iff: "backtrack n v \<longleftrightarrow> (\<exists>k. 1 \<le> k \<and> k \<le> n \<and> at_dollar (drop k v))"
proof (induction n)
  case 0
  then show ?case by simp
next
  case (Suc n)
  show ?case
  proof
    assume "backtrack (Suc n) v"
    then consider "at_dollar (drop (Suc n) v)" | "backtrack n v" by auto
    then show "\<exists>k. 1 \<le> k \<and> k \<le> Suc n \<and> at_dollar (drop k v)"
    proof cases
      case 1
      then show ?thesis by (intro exI[of _ "Suc n"]) simp
    next
      case 2
      with Suc.IH obtain k where "1 \<le> k" "k \<le> n" "at_dollar (drop k v)" by blast
      then show ?thesis by (intro exI[of _ k]) simp
    qed
  next
    assume "\<exists>k. 1 \<le> k \<and> k \<le> Suc n \<and> at_dollar (drop k v)"
    then obtain k where k: "1 \<le> k" "k \<le> Suc n" "at_dollar (drop k v)" by blast
    show "backtrack (Suc n) v"
    proof (cases "k = Suc n")
      case True
      with k show ?thesis by simp
    next
      case False
      with k have "k \<le> n" by simp
      with k Suc.IH have "backtrack n v" by blast
      then show ?thesis by simp
    qed
  qed
qed

lemma name_char_newline: "name_char 10"
  by (simp add: name_char_def is_space_def)

lemma re_match_name_iff: "re_match_name v \<longleftrightarrow> v \<noteq> [] \<and> (\<forall>c\<in>set v. name_char c)"
proof
  assume "re_match_name v"
  then obtain k where k: "1 \<le> k" "k \<le> length (takeWhile name_char v)"
      and d: "at_dollar (drop k v)"
    unfolding re_match_name_def backtrack_iff by blast
  have le: "length (takeWhile name_char v) \<le> length v" by (rule length_takeWhile_le)
  from k le have ne: "v \<noteq> []" by auto
  from d consider "drop k v = []" | "drop k v = [10]" unfolding at_dollar_def by blast
  then have "\<forall>c\<in>set v. name_char c"
  proof cases
    case 1
    then have "length v \<le> k" by simp
    with k le have "length (takeWhile name_char v) = length v" by simp
    then have "takeWhile name_char v = v"
      by (metis takeWhile_eq_take take_all order_refl)
    then show ?thesis by (metis set_takeWhileD)
  next
    case 2
    have v: "v = take k v @ [10]" using 2 by (metis append_take_drop_id)
    have "take k v = take k (takeWhile name_char v)"
      using k(2) by (metis takeWhile_eq_take take_take min.absorb1 min.commute)
    then have "\<forall>c\<in>set (take k v). name_char c"
      by (metis in_set_takeD set_takeWhileD)
    with v name_char_newline show ?thesis
      by (metis Un_iff empty_iff empty_set set_ConsD set_append)
  qed
  with ne show "v \<noteq> [] \<and> (\<forall>c\<in>set v. name_char c)" by simp
next
  assume a: "v \<noteq> [] \<and> (\<forall>c\<in>set v. name_char c)"
  then have tw: "takeWhile name_char v = v" by simp
  from a have "1 \<le> length v" by (cases v) auto
  then have "1 \<le> length v \<and> length v \<le> length v \<and> at_dollar (drop (length v) v)"
    by (simp add: at_dollar_def)
  then show "re_match_name v"
    unfolding re_match_name_def backtrack_iff tw by blast
qed


lemma validate_company_name_eq:
  "validate_company_name v =
     (if v \<noteq> [] \<and> (\<forall>c\<in>set v. name_char c) then Inr v
      else Inl (ValueError (lit ''Company name can only contain alphanumeric characters, spaces, commas, periods, apostrophes, and ampersands'')))"
  by (simp add: validate_company_name_def re_match_name_iff)

text \<open>
  Claim C4. \<open>validate_company_name\<close> accepts a string if and only if it is not empty and
  every one of its characters is in the class \<open>[A-Za-z0-9\s,.'&]\<close>; an accepted name is
  returned as it is. \<open>"Acme!"\<close> is rejected, \<open>"Acme, Inc."\<close> is accepted, and the empty
  string is rejected.
\<close>

theorem company_name_accepted_iff:
  "((\<exists>w. validate_company_name v = Inr w) \<longleftrightarrow> v \<noteq> [] \<and> (\<forall>c\<in>set v. name_char c))
   \<and> (validate_company_name v = Inr v \<or> (\<exists>e. validate_company_name v = Inl e))
   \<and> (\<exists>e. validate_company_name (lit ''Acme!'') = Inl e)
   \<and> validate_company_name (lit ''Acme, Inc.'') = Inr (lit ''Acme, Inc.'')
   \<and> (\<exists>e. validate_company_name [] = Inl e)"
proof -
  have 1: "(\<exists>w. validate_company_name v = Inr w) \<longleftrightarrow> v \<noteq> [] \<and> (\<forall>c\<in>set v. name_char c)"
    by (simp add: validate_company_name_eq)
  have 2: "validate_company_name v = Inr v \<or> (\<exists>e. validate_company_name v = Inl e)"
    by (simp add: validate_company_name_eq)
  have 3: "\<exists>e. validate_company_name (lit ''Acme!'') = Inl e"
    by (simp add: validate_company_name_eq lit_def name_char_def is_space_def)
  have 4: "validate_company_name (lit ''Acme, Inc.'') = Inr (lit ''Acme, Inc.'')"
    by (simp add: validate_company_name_eq lit_def name_char_def is_space_def)
  have 5: "\<exists>e. validate_company_name [] = Inl e"
    by (simp add: validate_company_name_eq)
  from 1 2 3 4 5 show ?thesis by blast
qed

theorem company_name_accepted_iff_witness:
  "lit ''Smith & Sons, LLC'' \<noteq> [] \<and> list_all name_char (lit ''Smith & Sons, LLC'')
   \<and> (\<exists>w. validate_company_name (lit ''Smith & Sons, LLC'') = Inr w)"
  using company_name_accepted_iff [of "lit ''Smith & Sons, LLC''"]
  by (simp add: lit_def name_char_def is_space_def)

subsection \<open>States\<close>

text \<open>Every code of the table is made of two upper-case ASCII letters.\<close>

lemma states_chars: "c \<in> set states \<Longrightarrow> list_all (\<lambda>x. 65 \<le> x \<and> x \<le> 90) c"
  unfolding states_def by (auto simp: lit_def)

lemma upper_spelling:
  "list_all2 (\<lambda>x y. x = y \<or> x = y + 32) v c \<Longrightarrow> list_all (\<lambda>x. 65 \<le> x \<and> x \<le> 90) c \<Longrightarrow>
   upper uc v = c"
proof (induction v c rule: list_all2_induct)
  case Nil
  then show ?case by (simp add: upper_def)
next
  case (Cons x xs y ys)
  from Cons.prems have y: "65 \<le> y" "y \<le> 90" and ys: "list_all (\<lambda>x. 65 \<le> x \<and> x \<le> 90) ys"
    by simp_all
  from Cons.hyps(1) y have "x < 128" "ascii_upper x = y"
    by (auto simp: ascii_upper_def)
  moreover from Cons.IH ys have "upper uc xs = ys" by simp
  ultimately show ?case by (simp add: upper_def)
qed

lemma upper_state: "c \<in> set states \<Longrightarrow> upper uc c = c"
proof -
  assume c: "c \<in> set states"
  have "list_all2 (\<lambda>x y. x = y \<or> x = y + 32) c c"
    by (simp add: list_all2_same)
  then show ?thesis using states_chars [OF c] by (rule upper_spelling)
qed

lemma length_states: "length states = 56" by (simp add: states_def)
lemma distinct_states: "distinct states" by (simp add: states_def)

text \<open>
  Claim C3. \<open>validate_state\<close> accepts \<open>v\<close> if and only if \<open>v.upper()\<close> is one of the 56
  codes of the table, and then returns \<open>v.upper()\<close>. \<open>"ZZ"\<close> is rejected, each of the 56
  codes is accepted, and every spelling of a code in lower, mixed or upper case (each
  letter is the code's letter or its lower-case form, 32 code points higher) is accepted
  and gives the code.
\<close>

theorem state_accepted_iff:
  "validate_state uc v =
     (if upper uc v \<in> set states then Inr (upper uc v)
      else Inl (ValueError (lit ''Invalid US state or territory'')))
   \<and> length states = 56 \<and> distinct states
   \<and> validate_state uc (lit ''ZZ'') = Inl (ValueError (lit ''Invalid US state or territory''))
   \<and> (\<forall>c\<in>set states. validate_state uc c = Inr c)
   \<and> (\<forall>c\<in>set states. \<forall>w. list_all2 (\<lambda>x y. x = y \<or> x = y + 32) w c \<longrightarrow>
         validate_state uc w = Inr c)"
proof -
  have 1: "validate_state uc v =
     (if upper uc v \<in> set states then Inr (upper uc v)
      else Inl (ValueError (lit ''Invalid US state or territory'')))"
    by (simp add: validate_state_def)
  have "upper uc (lit ''ZZ'') = lit ''ZZ''"
    by (simp add: upper_def lit_def ascii_upper_def)
  moreover have "lit ''ZZ'' \<notin> set states" by (simp add: states_def)
  ultimately have 2: "validate_state uc (lit ''ZZ'') = Inl (ValueError (lit ''Invalid US state or territory''))"
    by (simp add: validate_state_def)
  have 3: "\<forall>c\<in>set states. validate_state uc c = Inr c"
    by (simp add: validate_state_def upper_state)
  have 4: "\<forall>c\<in>set states. \<forall>w. list_all2 (\<lambda>x y. x = y \<or> x = y + 32) w c \<longrightarrow>
         validate_state uc w = Inr c"
  proof (intro ballI allI impI)
    fix c w
    assume c: "c \<in> set states" and w: "list_all2 (\<lambda>x y. x = y \<or> x = y + 32) w c"
    from upper_spelling [OF w states_chars [OF c]] have "upper uc w = c" .
    with c show "validate_state uc w = Inr c" by (simp add: validate_state_def)
  qed
  from 1 2 3 4 length_states distinct_states show ?thesis by blast
qed

theorem state_accepted_iff_witness:
  "lit ''DE'' \<in> set states
   \<and> list_all2 (\<lambda>x y. x = y \<or> x = y + 32) (lit ''dE'') (lit ''DE'')
   \<and> validate_state (\<lambda>c. [c]) (lit ''dE'') = Inr (lit ''DE'')
   \<and> validate_state (\<lambda>c. [c]) (lit ''de'') = Inr (lit ''DE'')
   \<and> validate_state (\<lambda>c. [c]) (lit ''DE'') = Inr (lit ''DE'')"
proof -
  have s: "lit ''DE'' \<in> set states" by (simp add: states_def)
  have a: "list_all2 (\<lambda>x y. x = y \<or> x = y + 32) (lit ''dE'') (lit ''DE'')"
    by (simp add: lit_def)
  have b: "list_all2 (\<lambda>x y. x = y \<or> x = y + 32) (lit ''de'') (lit ''DE'')"
    by (simp add: lit_def)
  have c: "list_all2 (\<lambda>x y. x = y \<or> x = y + 32) (lit ''DE'') (lit ''DE'')"
    by (simp add: lit_def)
  from state_accepted_iff [of "\<lambda>c. [c]" "[]"] s a b c show ?thesis by blast
qed

subsection \<open>Construction of the validated object\<close>

lemma check_name_Inr:
  "check_field (run_validator validate_company_name) raw = Inr n \<longleftrightarrow>
     raw = Some n \<and> re_match_name n"
  by (auto simp: check_field_def run_validator_def validate_company_name_def
      split: option.splits sum.splits if_splits)

lemma check_state_Inr:
  "check_field (run_validator (validate_state uc)) raw = Inr s \<longleftrightarrow>
     (\<exists>v. raw = Some v \<and> upper uc v \<in> set states \<and> s = upper uc v)"
  by (auto simp: check_field_def run_validator_def validate_state_def
      split: option.splits sum.splits if_splits)

lemma check_type_Inr:
  "check_field check_literal raw = Inr t \<longleftrightarrow>
     raw = Some t \<and> (t = lit ''corporation'' \<or> t = lit ''LLC'')"
  by (auto simp: check_field_def check_literal_def split: option.splits if_splits)

lemma check_incorporator_Inr: "check_field Inr raw = Inr i \<longleftrightarrow> raw = Some i"
  by (auto simp: check_field_def split: option.splits)

lemma new_CompanyFormation_Inr:
  "new_CompanyFormation uc data = Inr r \<longleftrightarrow>
     raw_company_name data = Some (company_name r) \<and> re_match_name (company_name r)
     \<and> (\<exists>v. raw_state_of_formation data = Some v \<and> upper uc v \<in> set states
          \<and> state_of_formation r = upper uc v)
     \<and> raw_company_type data = Some (company_type r)
     \<and> (company_type r = lit ''corporation'' \<or> company_type r = lit ''LLC'')
     \<and> raw_incorporator_name data = Some (incorporator_name r)"
proof -
  let ?r1 = "check_field (run_validator validate_company_name) (raw_company_name data)"
  let ?r2 = "check_field (run_validator (validate_state uc)) (raw_state_of_formation data)"
  let ?r3 = "check_field check_literal (raw_company_type data)"
  let ?r4 = "check_field Inr (raw_incorporator_name data)"
  have "new_CompanyFormation uc data = Inr r \<longleftrightarrow>
          ?r1 = Inr (company_name r) \<and> ?r2 = Inr (state_of_formation r)
          \<and> ?r3 = Inr (company_type r) \<and> ?r4 = Inr (incorporator_name r)"
    by (cases r) (auto simp: new_CompanyFormation_def Let_def split: sum.splits)
  then show ?thesis
    unfolding check_name_Inr check_state_Inr check_type_Inr check_incorporator_Inr by blast
qed

lemma new_CompanyFormation_Inl:
  "new_CompanyFormation uc data = Inl e \<Longrightarrow>
     e = ValidationError (errors_of
       [(Company_name, check_field (run_validator validate_company_name) (raw_company_name data)),
        (State_of_formation, check_field (run_validator (validate_state uc)) (raw_state_of_formation data)),
        (Company_type, check_field check_literal (raw_company_type data)),
        (Incorporator_name, check_field Inr (raw_incorporator_name data))])"
  by (auto simp: new_CompanyFormation_def Let_def split: sum.splits)

lemma name_char_simps:
  "name_char c \<longleftrightarrow>
     (97 \<le> c \<and> c \<le> 122) \<or> (65 \<le> c \<and> c \<le> 90) \<or> (48 \<le> c \<and> c \<le> 57)
     \<or> (9 \<le> c \<and> c \<le> 13) \<or> (28 \<le> c \<and> c \<le> 32) \<or> c = 133 \<or> c = 160 \<or> c = 5760
     \<or> (8192 \<le> c \<and> c \<le> 8202) \<or> c = 8232 \<or> c = 8233 \<or> c = 8239 \<or> c = 8287
     \<or> c = 12288 \<or> c = 44 \<or> c = 46 \<or> c = 39 \<or> c = 38"
  by (auto simp: name_char_def is_space_def)

lemma acme_de: "new_CompanyFormation uc (request ''Acme Corp, Inc.'' ''DE'' ''corporation'' ''John Smith'')
  = Inr \<lparr>company_name = lit ''Acme Corp, Inc.'', state_of_formation = lit ''DE'',
         company_type = lit ''corporation'', incorporator_name = lit ''John Smith''\<rparr>"
  unfolding new_CompanyFormation_Inr
  by (simp add: request_def re_match_name_iff name_char_simps upper_def ascii_upper_def states_def lit_def)

lemma acme_lower: "new_CompanyFormation uc (request ''Acme Corp, Inc.'' ''de'' ''corporation'' ''John Smith'')
  = Inr \<lparr>company_name = lit ''Acme Corp, Inc.'', state_of_formation = lit ''DE'',
         company_type = lit ''corporation'', incorporator_name = lit ''John Smith''\<rparr>"
  unfolding new_CompanyFormation_Inr
  by (simp add: request_def re_match_name_iff name_char_simps upper_def ascii_upper_def states_def lit_def)

text \<open>
  Claim C5. Validation is idempotent: when a payload is accepted and gives the object
  \<open>r\<close>, the payload made of the fields of \<open>r\<close> is accepted too and gives \<open>r\<close> again.
\<close>

theorem validation_idempotent:
  "new_CompanyFormation uc data = Inr r \<Longrightarrow> new_CompanyFormation uc (dict r) = Inr r"
proof -
  assume a: "new_CompanyFormation uc data = Inr r"
  then obtain v where v: "upper uc v \<in> set states" "state_of_formation r = upper uc v"
    unfolding new_CompanyFormation_Inr by blast
  then have "upper uc (state_of_formation r) = state_of_formation r"
    by (simp add: upper_state)
  with a v show ?thesis
    unfolding new_CompanyFormation_Inr by (simp add: dict_def)
qed

theorem validation_idempotent_witness:
  "new_CompanyFormation (\<lambda>c. [c]) (request ''Acme Corp, Inc.'' ''de'' ''corporation'' ''John Smith'')
     = Inr \<lparr>company_name = lit ''Acme Corp, Inc.'', state_of_formation = lit ''DE'',
         company_type = lit ''corporation'', incorporator_name = lit ''John Smith''\<rparr>
   \<and> new_CompanyFormation (\<lambda>c. [c])
       (dict \<lparr>company_name = lit ''Acme Corp, Inc.'', state_of_formation = lit ''DE'',
         company_type = lit ''corporation'', incorporator_name = lit ''John Smith''\<rparr>)
     = Inr \<lparr>company_name = lit ''Acme Corp, Inc.'', state_of_formation = lit ''DE'',
         company_type = lit ''corporation'', incorporator_name = lit ''John Smith''\<rparr>"
  using validation_idempotent [OF acme_lower [of "\<lambda>c. [c]"]] acme_lower [of "\<lambda>c. [c]"]
  by simp

lemma example_tx: "new_CompanyFormation uc (request ''Acme Corp, Inc.'' ''TX'' ''corporation'' ''John Smith'')
  = Inr \<lparr>company_name = lit ''Acme Corp, Inc.'', state_of_formation = lit ''TX'',
         company_type = lit ''corporation'', incorporator_name = lit ''John Smith''\<rparr>"
  unfolding new_CompanyFormation_Inr
  by (simp add: request_def re_match_name_iff name_char_simps upper_def ascii_upper_def states_def lit_def)

lemma example_bad_name:
  "new_CompanyFormation uc (request ''Acme!'' ''DE'' ''corporation'' ''John Smith'') =
     Inl (ValidationError [(Company_name, Validator_failed (ValueError (lit ''Company name can only contain alphanumeric characters, spaces, commas, periods, apostrophes, and ampersands'')))])"
proof -
  have "\<not> re_match_name (lit ''Acme!'')"
    by (simp add: re_match_name_iff name_char_simps lit_def)
  moreover have "upper uc (lit ''DE'') = lit ''DE''"
    by (simp add: upper_state states_def)
  moreover have "lit ''DE'' \<in> set states" by (simp add: states_def)
  ultimately show ?thesis
    by (simp add: new_CompanyFormation_def request_def check_field_def run_validator_def
        validate_company_name_def validate_state_def check_literal_def errors_of_def)
qed

text \<open>
  Construction fails exactly when a field is missing, the name does not match the
  pattern, the state is not in the table, or the type is not one of the two literals.
\<close>

lemma validation_fails_iff:
  "(\<exists>e. new_CompanyFormation uc data = Inl e) \<longleftrightarrow>
     raw_company_name data = None \<or> raw_state_of_formation data = None
     \<or> raw_company_type data = None \<or> raw_incorporator_name data = None
     \<or> (\<exists>v. raw_company_name data = Some v \<and> \<not> re_match_name v)
     \<or> (\<exists>v. raw_state_of_formation data = Some v \<and> upper uc v \<notin> set states)
     \<or> (\<exists>v. raw_company_type data = Some v \<and> v \<noteq> lit ''corporation'' \<and> v \<noteq> lit ''LLC'')"
proof -
  have "(\<exists>e. new_CompanyFormation uc data = Inl e) \<longleftrightarrow> \<not> (\<exists>r. new_CompanyFormation uc data = Inr r)"
    by (cases "new_CompanyFormation uc data") auto
  also have "(\<exists>r. new_CompanyFormation uc data = Inr r) \<longleftrightarrow>
     (\<exists>n s t i. raw_company_name data = Some n \<and> re_match_name n
        \<and> raw_state_of_formation data = Some s \<and> upper uc s \<in> set states
        \<and> raw_company_type data = Some t \<and> (t = lit ''corporation'' \<or> t = lit ''LLC'')
        \<and> raw_incorporator_name data = Some i)" (is "?L \<longleftrightarrow> ?R")
  proof
    assume ?L
    then show ?R unfolding new_CompanyFormation_Inr by blast
  next
    assume ?R
    then obtain n s t i where h: "raw_company_name data = Some n" "re_match_name n"
        "raw_state_of_formation data = Some s" "upper uc s \<in> set states"
        "raw_company_type data = Some t" "t = lit ''corporation'' \<or> t = lit ''LLC''"
        "raw_incorporator_name data = Some i" by blast
    then have "new_CompanyFormation uc data =
        Inr \<lparr>company_name = n, state_of_formation = upper uc s, company_type = t, incorporator_name = i\<rparr>"
      unfolding new_CompanyFormation_Inr by simp
    then show ?L by blast
  qed
  finally show ?thesis
    by (cases "raw_company_name data"; cases "raw_state_of_formation data";
        cases "raw_company_type data"; cases "raw_incorporator_name data") auto
qed

lemma errors_of_Cons:
  "errors_of ((f, r) # rs) = (case r of Inl e \<Rightarrow> [(f, e)] | Inr _ \<Rightarrow> []) @ errors_of rs"
  by (simp add: errors_of_def)

subsection \<open>The endpoint\<close>

lemma example_partnership:
  "form_company lib uc now (request ''Acme Corp, Inc.'' ''DE'' ''partnership'' ''John Smith'') =
     Json_error (Str_of (ValidationError [(Company_type, Unexpected_value (lit ''partnership''))])) 400"
proof -
  have "re_match_name (lit ''Acme Corp, Inc.'')"
    by (simp add: re_match_name_iff name_char_simps lit_def)
  moreover have "upper uc (lit ''DE'') = lit ''DE''"
    by (simp add: upper_state states_def)
  moreover have "lit ''DE'' \<in> set states" by (simp add: states_def)
  ultimately show ?thesis
    by (simp add: form_company_def new_CompanyFormation_def request_def check_field_def run_validator_def
        validate_company_name_def validate_state_def check_literal_def errors_of_def)
qed

text \<open>
  The fallback branch is in the code: an object that did not come out of validation, with
  the state \<open>DE\<close> and another type, takes it.
\<close>

lemma fallback_exists:
  "dispatch lib now \<lparr>company_name = lit ''Acme Corp, Inc.'', state_of_formation = lit ''DE'',
         company_type = lit ''partnership'', incorporator_name = lit ''John Smith''\<rparr>
   = Inr (Json_error (Message (lit ''Unsupported company type'')) 400)"
  by (simp add: dispatch_def)

text \<open>
  The archive step returns exactly when no call raises: the library is quiet, the text
  holds no lone surrogate and the download name no line break. What it returns then is
  the file with the two entries.
\<close>

lemma send_zip_Inr:
  "send_zip lib r (pdf, txt) = Inr rv \<longleftrightarrow>
     library_quiet lib (company_name r) pdf txt \<and> \<not> has_surrogate txt
     \<and> \<not> has_line_break (company_name r @ lit ''_formation_documents.zip'')
     \<and> rv = Send_file
           [(company_name r @ lit ''_certificate.pdf'', Pdf_bytes pdf),
            (company_name r @ lit ''_certificate.txt'', Text_bytes txt)]
           (lit ''application/zip'') (company_name r @ lit ''_formation_documents.zip'')"
  by (auto simp: send_zip_def write_zip_def writestr_def send_file_def library_quiet_def
      leave_with_def split: option.splits sum.splits if_splits)

lemma send_zip_not_json: "send_zip lib r g = Inr rv \<Longrightarrow> rv \<noteq> Json_error m n"
  by (cases g) (auto simp: send_zip_Inr)

text \<open>
  Claim C1, evaluated where the code departs from it. The two California examples of
  \<open>form_company_schema\<close> pass validation, and the endpoint answers both with status 400 and
  the message that only Delaware and California are supported: \<open>form_company\<close> compares
  the state with \<open>DE\<close> alone and never calls the California templates.
\<close>

theorem california_rejected:
  "form_company lib uc now (form_company_schema ! 2) =
     Json_error (Message (lit ''Only Delaware and California entities are supported at this time'')) 400
   \<and> form_company lib uc now (form_company_schema ! 3) =
     Json_error (Message (lit ''Only Delaware and California entities are supported at this time'')) 400"
proof -
  have a: "new_CompanyFormation uc (request ''Tech Innovators Co.'' ''CA'' ''corporation'' ''Michael Johnson'')
     = Inr \<lparr>company_name = lit ''Tech Innovators Co.'', state_of_formation = lit ''CA'',
         company_type = lit ''corporation'', incorporator_name = lit ''Michael Johnson''\<rparr>"
    unfolding new_CompanyFormation_Inr
    by (simp add: request_def re_match_name_iff name_char_simps upper_def ascii_upper_def states_def lit_def)
  have b: "new_CompanyFormation uc (request ''California Dreaming, LLC'' ''CA'' ''LLC'' ''Emily Chen'')
     = Inr \<lparr>company_name = lit ''California Dreaming, LLC'', state_of_formation = lit ''CA'',
         company_type = lit ''LLC'', incorporator_name = lit ''Emily Chen''\<rparr>"
    unfolding new_CompanyFormation_Inr
    by (simp add: request_def re_match_name_iff name_char_simps upper_def ascii_upper_def states_def lit_def)
  show ?thesis
    by (simp add: form_company_schema_def form_company_def a b dispatch_def)
qed

text \<open>
  Claim C2. A request that passes validation with a state other than \<open>DE\<close> and \<open>CA\<close>
  (\<open>TX\<close>, say) is answered with status 400 and the error object whose text is exactly
  \<open>Only Delaware and California entities are supported at this time\<close>; the response is
  not a file, so no archive is produced.
\<close>

theorem other_state_rejected:
  "new_CompanyFormation uc data = Inr r \<Longrightarrow> state_of_formation r \<noteq> lit ''DE'' \<Longrightarrow>
   state_of_formation r \<noteq> lit ''CA'' \<Longrightarrow>
   form_company lib uc now data =
     Json_error (Message (lit ''Only Delaware and California entities are supported at this time'')) 400"
  by (simp add: form_company_def dispatch_def)

theorem other_state_rejected_witness:
  "form_company quiet_library (\<lambda>c. [c]) (\<lambda>n. \<lparr>year = 2025, month = March, day = 7\<rparr>)
     (request ''Acme Corp, Inc.'' ''TX'' ''corporation'' ''John Smith'') =
     Json_error (Message (lit ''Only Delaware and California entities are supported at this time'')) 400"
  using other_state_rejected [OF example_tx [of "\<lambda>c. [c]"],
      where lib = quiet_library and now = "\<lambda>n. \<lparr>year = 2025, month = March, day = 7\<rparr>"]
  by simp

text \<open>
  Claim C7. A payload that fails validation (a missing field, a company name that does not
  match, a state not in the table, or a type that is not one of the two literals) is
  answered with status 400 and the error object made of the exception; the response is
  never a file, so nothing is rendered or archived.
\<close>

theorem validation_failure_rejected:
  "((\<exists>e. new_CompanyFormation uc data = Inl e) \<longleftrightarrow>
      raw_company_name data = None \<or> raw_state_of_formation data = None
      \<or> raw_company_type data = None \<or> raw_incorporator_name data = None
      \<or> (\<exists>v. raw_company_name data = Some v \<and> \<not> re_match_name v)
      \<or> (\<exists>v. raw_state_of_formation data = Some v \<and> upper uc v \<notin> set states)
      \<or> (\<exists>v. raw_company_type data = Some v \<and> v \<noteq> lit ''corporation'' \<and> v \<noteq> lit ''LLC''))
   \<and> (\<forall>e. new_CompanyFormation uc data = Inl e \<longrightarrow>
         form_company lib uc now data = Json_error (Str_of e) 400
         \<and> (\<forall>a m d. form_company lib uc now data \<noteq> Send_file a m d))"
proof -
  have "\<forall>e. new_CompanyFormation uc data = Inl e \<longrightarrow>
         form_company lib uc now data = Json_error (Str_of e) 400
         \<and> (\<forall>a m d. form_company lib uc now data \<noteq> Send_file a m d)"
    by (simp add: form_company_def)
  with validation_fails_iff [of uc data] show ?thesis by blast
qed

theorem validation_failure_rejected_witness:
  "\<not> re_match_name (lit ''Acme!'')
   \<and> form_company quiet_library (\<lambda>c. [c]) (\<lambda>n. \<lparr>year = 2025, month = March, day = 7\<rparr>)
       (request ''Acme!'' ''DE'' ''corporation'' ''John Smith'') =
     Json_error (Str_of (ValidationError [(Company_name, Validator_failed (ValueError (lit ''Company name can only contain alphanumeric characters, spaces, commas, periods, apostrophes, and ampersands'')))])) 400"
proof -
  have "\<not> re_match_name (lit ''Acme!'')"
    by (simp add: re_match_name_iff name_char_simps lit_def)
  with validation_failure_rejected [where uc = "\<lambda>c. [c]"
      and data = "request ''Acme!'' ''DE'' ''corporation'' ''John Smith''" and lib = quiet_library
      and now = "\<lambda>n. \<lparr>year = 2025, month = March, day = 7\<rparr>"]
    example_bad_name [of "\<lambda>c. [c]"]
  show ?thesis by blast
qed

text \<open>
  Claim C8. A request whose company type is neither \<open>corporation\<close> nor \<open>LLC\<close>
  (\<open>partnership\<close> for a \<open>DE\<close> request, say) is answered with status 400 and the error object
  of a validation error that reports the value of the field \<open>company_type\<close> as unexpected;
  no document is generated.
\<close>

theorem unsupported_type_rejected:
  "raw_company_type data = Some t \<Longrightarrow> t \<noteq> lit ''corporation'' \<Longrightarrow> t \<noteq> lit ''LLC'' \<Longrightarrow>
   \<exists>errs. form_company lib uc now data = Json_error (Str_of (ValidationError errs)) 400
     \<and> (Company_type, Unexpected_value t) \<in> set errs"
proof -
  assume t: "raw_company_type data = Some t" "t \<noteq> lit ''corporation''" "t \<noteq> lit ''LLC''"
  then have r3: "check_field check_literal (raw_company_type data) = Inl (Unexpected_value t)"
    by (simp add: check_field_def check_literal_def)
  with t have "\<exists>e. new_CompanyFormation uc data = Inl e"
    unfolding validation_fails_iff by blast
  then obtain e where e: "new_CompanyFormation uc data = Inl e" by blast
  define errs where "errs = errors_of
       [(Company_name, check_field (run_validator validate_company_name) (raw_company_name data)),
        (State_of_formation, check_field (run_validator (validate_state uc)) (raw_state_of_formation data)),
        (Company_type, check_field check_literal (raw_company_type data)),
        (Incorporator_name, check_field Inr (raw_incorporator_name data))]"
  from new_CompanyFormation_Inl [OF e] have "e = ValidationError errs" by (simp add: errs_def)
  with e have "form_company lib uc now data = Json_error (Str_of (ValidationError errs)) 400"
    by (simp add: form_company_def)
  moreover have "(Company_type, Unexpected_value t) \<in> set errs"
    by (simp add: errs_def errors_of_Cons r3)
  ultimately show ?thesis by blast
qed

theorem unsupported_type_rejected_witness:
  "lit ''partnership'' \<noteq> lit ''corporation'' \<and> lit ''partnership'' \<noteq> lit ''LLC''
   \<and> (\<exists>errs. form_company quiet_library (\<lambda>c. [c]) (\<lambda>n. \<lparr>year = 2025, month = March, day = 7\<rparr>)
         (request ''Acme Corp, Inc.'' ''DE'' ''partnership'' ''John Smith'') =
         Json_error (Str_of (ValidationError errs)) 400
       \<and> (Company_type, Unexpected_value (lit ''partnership'')) \<in> set errs)"
  using unsupported_type_rejected [where data = "request ''Acme Corp, Inc.'' ''DE'' ''partnership'' ''John Smith''"
      and t = "lit ''partnership''" and uc = "\<lambda>c. [c]" and lib = quiet_library
      and now = "\<lambda>n. \<lparr>year = 2025, month = March, day = 7\<rparr>"]
  by (simp add: request_def)

text \<open>
  Claim C10. An object that comes out of validation has the type \<open>corporation\<close> or \<open>LLC\<close>,
  so no payload makes the endpoint answer with the fallback branch's
  \<open>Unsupported company type\<close>.
\<close>

theorem fallback_unreachable:
  "(\<forall>r. new_CompanyFormation uc data = Inr r \<longrightarrow>
       company_type r = lit ''corporation'' \<or> company_type r = lit ''LLC'')
   \<and> form_company lib uc now data \<noteq> Json_error (Message (lit ''Unsupported company type'')) 400"
proof -
  have 1: "\<forall>r. new_CompanyFormation uc data = Inr r \<longrightarrow>
       company_type r = lit ''corporation'' \<or> company_type r = lit ''LLC''"
    unfolding new_CompanyFormation_Inr by blast
  have 2: "form_company lib uc now data \<noteq> Json_error (Message (lit ''Unsupported company type'')) 400"
  proof (cases "new_CompanyFormation uc data")
    case (Inl e)
    then show ?thesis by (simp add: form_company_def)
  next
    case (Inr r)
    show ?thesis
    proof (cases "dispatch lib now r")
      case (Inl e)
      with Inr show ?thesis by (simp add: form_company_def)
    next
      case rv: (Inr rv)
      have "rv \<noteq> Json_error (Message (lit ''Unsupported company type'')) 400"
      proof (cases "state_of_formation r = lit ''DE''")
        case True
        from 1 Inr have "company_type r = lit ''corporation'' \<or> company_type r = lit ''LLC''"
          by blast
        with True rv show ?thesis
          by (auto simp: dispatch_def dest: send_zip_not_json)
      next
        case False
        with rv show ?thesis by (auto simp: dispatch_def)
      qed
      with Inr rv show ?thesis by (simp add: form_company_def)
    qed
  qed
  from 1 2 show ?thesis by blast
qed

theorem fallback_unreachable_witness:
  "new_CompanyFormation (\<lambda>c. [c]) (request ''Acme Corp, Inc.'' ''DE'' ''corporation'' ''John Smith'')
     = Inr \<lparr>company_name = lit ''Acme Corp, Inc.'', state_of_formation = lit ''DE'',
         company_type = lit ''corporation'', incorporator_name = lit ''John Smith''\<rparr>
   \<and> form_company quiet_library (\<lambda>c. [c]) (\<lambda>n. \<lparr>year = 2025, month = March, day = 7\<rparr>)
         (request ''Acme Corp, Inc.'' ''DE'' ''corporation'' ''John Smith'')
       \<noteq> Json_error (Message (lit ''Unsupported company type'')) 400"
  using fallback_unreachable [where uc = "\<lambda>c. [c]"
       and data = "request ''Acme Corp, Inc.'' ''DE'' ''corporation'' ''John Smith''"
       and lib = quiet_library and now = "\<lambda>n. \<lparr>year = 2025, month = March, day = 7\<rparr>"]
    acme_de [of "\<lambda>c. [c]"]
  by simp

subsection \<open>The archive step\<close>

text \<open>Where lone surrogates can and cannot occur.\<close>

lemma lit_append: "lit (a @ b) = lit a @ lit b"
  by (simp add: lit_def)

lemma has_surrogate_append [simp]:
  "has_surrogate (a @ b) \<longleftrightarrow> has_surrogate a \<or> has_surrogate b"
  by (simp add: has_surrogate_def)

lemma of_char_small: "of_char c < (256 :: nat)"
proof -
  have "(of_char c :: nat) = of_char c mod 256" by simp
  also have "\<dots> < 256" by (rule mod_less_divisor) simp
  finally show ?thesis .
qed

lemma has_surrogate_lit [simp]: "\<not> has_surrogate (lit s)"
proof -
  have "\<not> (55296 \<le> (of_char c :: nat))" for c
    using of_char_small [of c] by linarith
  then show ?thesis
    by (simp add: has_surrogate_def lit_def list_ex_iff)
qed

lemma has_surrogate_dec [simp]: "\<not> has_surrogate (dec n)"
proof (induction n rule: dec.induct)
  case (1 n)
  show ?case
  proof (cases "n < 10")
    case True
    then show ?thesis by (subst dec.simps) (simp add: has_surrogate_def)
  next
    case False
    with 1 have "\<not> has_surrogate (dec (n div 10))" by simp
    moreover have "48 + n mod 10 < 58" by simp
    ultimately show ?thesis using False
      by (subst dec.simps) (simp add: has_surrogate_def)
  qed
qed

lemma has_surrogate_month [simp]: "\<not> has_surrogate (month_name m)"
  by (cases m) simp_all

lemma has_surrogate_date [simp]: "\<not> has_surrogate (strftime_d_B_Y t)"
  by (simp add: strftime_d_B_Y_def strftime_d_def)

lemma has_surrogate_text:
  "has_surrogate (snd (generate_delaware_articles n1 n2 n3 r)) \<longleftrightarrow>
     has_surrogate (company_name r) \<or> has_surrogate (incorporator_name r)"
  "has_surrogate (snd (generate_delaware_llc_certificate n1 n2 n3 r)) \<longleftrightarrow>
     has_surrogate (company_name r) \<or> has_surrogate (incorporator_name r)"
  by (simp_all add: generate_delaware_articles_def generate_delaware_llc_certificate_def Let_def)



lemma has_line_break_download [simp]:
  "has_line_break (n @ lit ''_formation_documents.zip'') \<longleftrightarrow> has_line_break n"
  by (simp add: has_line_break_def lit_def)

lemma delaware_dispatch:
  "state_of_formation r = lit ''DE'' \<Longrightarrow> company_type r = lit ''corporation'' \<Longrightarrow>
     dispatch lib now r = send_zip lib r (generate_delaware_articles (now 0) (now 1) (now 2) r)"
  "state_of_formation r = lit ''DE'' \<Longrightarrow> company_type r = lit ''LLC'' \<Longrightarrow>
     dispatch lib now r = send_zip lib r (generate_delaware_llc_certificate (now 0) (now 1) (now 2) r)"
  by (simp_all add: dispatch_def)




subsection \<open>The documents\<close>



text \<open>
  A validated Delaware request whose company name holds a line break, or whose
  incorporator name holds a lone surrogate, is answered with status 400: the archive step
  raises, whatever the library does elsewhere.
\<close>

lemma delaware_archive_refused:
  assumes v: "new_CompanyFormation uc data = Inr r" and de: "state_of_formation r = lit ''DE''"
    and bad: "has_line_break (company_name r) \<or> has_surrogate (incorporator_name r)"
  shows "\<exists>e. form_company lib uc now data = Json_error (Str_of e) 400"
proof -
  from v have ty: "company_type r = lit ''corporation'' \<or> company_type r = lit ''LLC''"
    unfolding new_CompanyFormation_Inr by blast
  define g where "g = (if company_type r = lit ''corporation''
                 then generate_delaware_articles (now 0) (now 1) (now 2) r
                 else generate_delaware_llc_certificate (now 0) (now 1) (now 2) r)"
  from de ty have d: "dispatch lib now r = send_zip lib r (fst g, snd g)"
    by (auto simp: delaware_dispatch g_def)
  from bad have "has_line_break (company_name r) \<or> has_surrogate (snd g)"
    by (auto simp: g_def has_surrogate_text)
  then have "\<not> (\<exists>rv. send_zip lib r (fst g, snd g) = Inr rv)"
    unfolding send_zip_Inr by auto
  then obtain e where "send_zip lib r (fst g, snd g) = Inl e"
    by (cases "send_zip lib r (fst g, snd g)") auto
  with v d have "form_company lib uc now data = Json_error (Str_of e) 400"
    by (simp add: form_company_def)
  then show ?thesis by blast
qed

lemma acme_newline_refused:
  "form_company quiet_library uc now (request ''Acme\<newline>'' ''DE'' ''corporation'' ''John Smith'')
     = Json_error (Str_of Header_ValueError) 400"
proof -
  let ?r = "\<lparr>company_name = lit ''Acme\<newline>'', state_of_formation = lit ''DE'',
         company_type = lit ''corporation'', incorporator_name = lit ''John Smith''\<rparr>"
  have v: "new_CompanyFormation uc (request ''Acme\<newline>'' ''DE'' ''corporation'' ''John Smith'') = Inr ?r"
    unfolding new_CompanyFormation_Inr
    by (simp add: request_def re_match_name_iff name_char_simps upper_def ascii_upper_def states_def lit_def)
  have "\<not> has_surrogate (snd (generate_delaware_articles (now 0) (now 1) (now 2) ?r))"
    by (simp add: has_surrogate_text)
  moreover have "has_line_break (lit ''Acme\<newline>'')"
    by (simp add: has_line_break_def lit_def)
  ultimately have "send_zip quiet_library ?r (generate_delaware_articles (now 0) (now 1) (now 2) ?r)
      = Inl Header_ValueError"
    by (simp add: send_zip_def write_zip_def writestr_def send_file_def quiet_library_def split_beta)
  with v show ?thesis by (simp add: form_company_def dispatch_def)
qed

text \<open>
  With a library whose \<open>writestr\<close> fails, the request for Acme Corp, Inc. is answered with
  status 400 as well.
\<close>

lemma acme_library_failure:
  "form_company failing_library uc now (request ''Acme Corp, Inc.'' ''DE'' ''corporation'' ''John Smith'')
     = Json_error (Str_of (Library_error 0)) 400"
proof -
  let ?r = "\<lparr>company_name = lit ''Acme Corp, Inc.'', state_of_formation = lit ''DE'',
         company_type = lit ''corporation'', incorporator_name = lit ''John Smith''\<rparr>"
  have "send_zip failing_library ?r g = Inl (Library_error 0)" for g
    by (cases g)
      (simp add: send_zip_def write_zip_def writestr_def leave_with_def failing_library_def)
  then show ?thesis by (simp add: form_company_def acme_de dispatch_def)
qed



text \<open>
  What the four templates return. Each Delaware template returns a PDF and a text that
  carry the same company name and the same incorporator name. The PDF carries the day of
  the first clock reading and the month and year of the second; the text carries the date
  of the third. Each California template returns a PDF alone, titled
  \<open>ARTICLES OF INCORPORATION\<close> or \<open>ARTICLES OF ORGANIZATION\<close>.
\<close>

lemma template_bodies:
  "(case generate_delaware_articles now1 now2 now3 r of (pdf, txt) \<Rightarrow>
      drawString 70 680 (company_name r) \<in> set (ops pdf)
      \<and> drawString 70 80 (incorporator_name r) \<in> set (ops pdf)
      \<and> drawString 50 180 (lit ''has executed this Certificate of Incorporation this '' @ strftime_d now1 @ lit '' day of'') \<in> set (ops pdf)
      \<and> drawString 50 160 (strftime_B_Y now2 @ lit ''.'') \<in> set (ops pdf)
      \<and> (\<exists>a b c. txt = a @ lit ''\<newline>'' @ company_name r @ lit ''\<newline>'' @ b
             @ lit '' this '' @ strftime_d now3 @ lit '' '' @ strftime_B_Y now3 @ lit ''.\<newline>'' @ c
             @ lit ''\<newline>'' @ incorporator_name r))
   \<and> (case generate_delaware_llc_certificate now1 now2 now3 r of (pdf, txt) \<Rightarrow>
      drawString 70 680 (company_name r) \<in> set (ops pdf)
      \<and> drawString 70 80 (incorporator_name r) \<in> set (ops pdf)
      \<and> drawString 50 200 (lit ''IN WITNESS WHEREOF, the undersigned has executed this Certificate of Formation this '' @ strftime_d now1 @ lit '' day of'') \<in> set (ops pdf)
      \<and> drawString 50 180 (strftime_B_Y now2 @ lit ''.'') \<in> set (ops pdf)
      \<and> (\<exists>a b c. txt = a @ lit ''\<newline>'' @ company_name r @ lit ''\<newline>'' @ b
             @ lit '' this '' @ strftime_d now3 @ lit '' '' @ strftime_B_Y now3 @ lit ''.\<newline>'' @ c
             @ lit ''\<newline>'' @ incorporator_name r))
   \<and> (day now1 = day now3 \<and> month now2 = month now3 \<and> year now2 = year now3 \<longrightarrow>
        strftime_d now1 @ lit '' '' @ strftime_B_Y now2 = strftime_d_B_Y now3)
   \<and> pdf_title (generate_california_articles now1 now2 r :: canvas) = [lit ''ARTICLES OF INCORPORATION'']
   \<and> pdf_title (generate_california_llc_certificate now1 now2 r :: canvas) = [lit ''ARTICLES OF ORGANIZATION'']"
proof -
  have 1: "case generate_delaware_articles now1 now2 now3 r of (pdf, txt) \<Rightarrow>
      drawString 70 680 (company_name r) \<in> set (ops pdf)
      \<and> drawString 70 80 (incorporator_name r) \<in> set (ops pdf)
      \<and> drawString 50 180 (lit ''has executed this Certificate of Incorporation this '' @ strftime_d now1 @ lit '' day of'') \<in> set (ops pdf)
      \<and> drawString 50 160 (strftime_B_Y now2 @ lit ''.'') \<in> set (ops pdf)
      \<and> (\<exists>a b c. txt = a @ lit ''\<newline>'' @ company_name r @ lit ''\<newline>'' @ b
             @ lit '' this '' @ strftime_d now3 @ lit '' '' @ strftime_B_Y now3 @ lit ''.\<newline>'' @ c
             @ lit ''\<newline>'' @ incorporator_name r)"
    apply (simp add: generate_delaware_articles_def Let_def)
    apply (rule exI [of _ "lit ''CERTIFICATE OF INCORPORATION\<newline>\<newline>FIRST: The name of this corporation is:''"])
    apply (rule exI [of _ "lit ''\<newline>SECOND: Its registered office in the State of Delaware is located at:\<newline>251 Little Falls Drive, Wilmington, New Castle County, Delaware 19808\<newline>\<newline>THIRD: The purpose of the corporation is to engage in any lawful act or activity for\<newline>which corporations may be organized under the General Corporation Law of Delaware.\<newline>\<newline>FOURTH: The total number of shares of stock which this corporation is authorized\<newline>to issue is 1,000 shares of Common Stock with $0.01 par value per share.\<newline>\<newline>IN WITNESS WHEREOF, the undersigned, being the incorporator hereinbefore named,\<newline>has executed this Certificate of Incorporation''"])
    apply (rule exI [of _ "lit ''\<newline>Incorporator:''"])
    apply (simp add: strftime_d_B_Y_def strftime_B_Y_def lit_def)
    done
  have 2: "case generate_delaware_llc_certificate now1 now2 now3 r of (pdf, txt) \<Rightarrow>
      drawString 70 680 (company_name r) \<in> set (ops pdf)
      \<and> drawString 70 80 (incorporator_name r) \<in> set (ops pdf)
      \<and> drawString 50 200 (lit ''IN WITNESS WHEREOF, the undersigned has executed this Certificate of Formation this '' @ strftime_d now1 @ lit '' day of'') \<in> set (ops pdf)
      \<and> drawString 50 180 (strftime_B_Y now2 @ lit ''.'') \<in> set (ops pdf)
      \<and> (\<exists>a b c. txt = a @ lit ''\<newline>'' @ company_name r @ lit ''\<newline>'' @ b
             @ lit '' this '' @ strftime_d now3 @ lit '' '' @ strftime_B_Y now3 @ lit ''.\<newline>'' @ c
             @ lit ''\<newline>'' @ incorporator_name r)"
    apply (simp add: generate_delaware_llc_certificate_def Let_def)
    apply (rule exI [of _ "lit ''CERTIFICATE OF FORMATION\<newline>\<newline>FIRST: The name of the limited liability company is:''"])
    apply (rule exI [of _ "lit ''\<newline>SECOND: The address of its registered office in the State of Delaware is:\<newline>251 Little Falls Drive, Wilmington, New Castle County, Delaware 19808\<newline>\<newline>THIRD: The name and address of its registered agent in the State of Delaware is:\<newline>Corporation Service Company\<newline>251 Little Falls Drive\<newline>Wilmington, DE 19808\<newline>\<newline>FOURTH: The limited liability company shall be managed by its members.\<newline>\<newline>IN WITNESS WHEREOF, the undersigned has executed this Certificate of Formation''"])
    apply (rule exI [of _ "lit ''\<newline>Authorized Person:''"])
    apply (simp add: strftime_d_B_Y_def strftime_B_Y_def lit_def)
    done
  have 3: "day now1 = day now3 \<and> month now2 = month now3 \<and> year now2 = year now3 \<longrightarrow>
        strftime_d now1 @ lit '' '' @ strftime_B_Y now2 = strftime_d_B_Y now3"
    by (simp add: strftime_d_def strftime_B_Y_def strftime_d_B_Y_def)
  have 4: "pdf_title (generate_california_articles now1 now2 r) = [lit ''ARTICLES OF INCORPORATION'']"
    by (simp add: generate_california_articles_def pdf_title_def)
  have 5: "pdf_title (generate_california_llc_certificate now1 now2 r) = [lit ''ARTICLES OF ORGANIZATION'']"
    by (simp add: generate_california_llc_certificate_def pdf_title_def)
  from 1 2 3 4 5 show ?thesis by blast
qed

text \<open>
  Claim C9, evaluated where the code departs from it. The Delaware templates read the
  clock once for each piece of the date instead of once for the document, so the bodies
  of one call can carry different dates. With the first two readings on 31 December 2024
  and the third on 1 January 2025, the PDF of \<open>generate_delaware_articles\<close> is dated the
  31 day of December, 2024 and its text 01 January, 2025. With the first reading on
  31 January 2025 and the second on 1 February 2025, the PDF alone is dated the 31 day of
  February, 2025.
\<close>

theorem delaware_dates_disagree:
  "drawString 50 180 (lit ''has executed this Certificate of Incorporation this 31 day of'')
     \<in> set (ops (fst (generate_delaware_articles
          \<lparr>year = 2024, month = December, day = 31\<rparr> \<lparr>year = 2024, month = December, day = 31\<rparr>
          \<lparr>year = 2025, month = January, day = 1\<rparr>
          \<lparr>company_name = lit ''Acme Corp, Inc.'', state_of_formation = lit ''DE'',
            company_type = lit ''corporation'', incorporator_name = lit ''John Smith''\<rparr>)))
   \<and> drawString 50 160 (lit ''December, 2024.'')
     \<in> set (ops (fst (generate_delaware_articles
          \<lparr>year = 2024, month = December, day = 31\<rparr> \<lparr>year = 2024, month = December, day = 31\<rparr>
          \<lparr>year = 2025, month = January, day = 1\<rparr>
          \<lparr>company_name = lit ''Acme Corp, Inc.'', state_of_formation = lit ''DE'',
            company_type = lit ''corporation'', incorporator_name = lit ''John Smith''\<rparr>)))
   \<and> drawString 50 180 (lit ''has executed this Certificate of Incorporation this 31 day of'')
     \<in> set (ops (fst (generate_delaware_articles
          \<lparr>year = 2025, month = January, day = 31\<rparr> \<lparr>year = 2025, month = February, day = 1\<rparr>
          \<lparr>year = 2025, month = February, day = 1\<rparr>
          \<lparr>company_name = lit ''Acme Corp, Inc.'', state_of_formation = lit ''DE'',
            company_type = lit ''corporation'', incorporator_name = lit ''John Smith''\<rparr>)))
   \<and> drawString 50 160 (lit ''February, 2025.'')
     \<in> set (ops (fst (generate_delaware_articles
          \<lparr>year = 2025, month = January, day = 31\<rparr> \<lparr>year = 2025, month = February, day = 1\<rparr>
          \<lparr>year = 2025, month = February, day = 1\<rparr>
          \<lparr>company_name = lit ''Acme Corp, Inc.'', state_of_formation = lit ''DE'',
            company_type = lit ''corporation'', incorporator_name = lit ''John Smith''\<rparr>)))
   \<and> snd (generate_delaware_articles
          \<lparr>year = 2024, month = December, day = 31\<rparr> \<lparr>year = 2024, month = December, day = 31\<rparr>
          \<lparr>year = 2025, month = January, day = 1\<rparr>
          \<lparr>company_name = lit ''Acme Corp, Inc.'', state_of_formation = lit ''DE'',
            company_type = lit ''corporation'', incorporator_name = lit ''John Smith''\<rparr>)
      = lit ''CERTIFICATE OF INCORPORATION\<newline>\<newline>FIRST: The name of this corporation is:\<newline>Acme Corp, Inc.\<newline>\<newline>SECOND: Its registered office in the State of Delaware is located at:\<newline>251 Little Falls Drive, Wilmington, New Castle County, Delaware 19808\<newline>\<newline>THIRD: The purpose of the corporation is to engage in any lawful act or activity for\<newline>which corporations may be organized under the General Corporation Law of Delaware.\<newline>\<newline>FOURTH: The total number of shares of stock which this corporation is authorized\<newline>to issue is 1,000 shares of Common Stock with $0.01 par value per share.\<newline>\<newline>IN WITNESS WHEREOF, the undersigned, being the incorporator hereinbefore named,\<newline>has executed this Certificate of Incorporation this 01 January, 2025.\<newline>\<newline>Incorporator:\<newline>John Smith''"
  by (simp add: generate_delaware_articles_def Let_def strftime_d_def strftime_B_Y_def
      strftime_d_B_Y_def dec.simps lit_def)

end
